theory Spec2Isabelle
  imports Main "HOL-Library.Multiset" "HOL-Library.Char_ord" "HOL-Library.List_Lexorder" "HOL-Library.Product_Lexorder"
begin

section \<open>Strings and versions\<close>

text \<open>
  Python compares \<open>str\<close> values lexicographically by code point. With
  \<open>Char_ord\<close> and \<open>List_Lexorder\<close> the order \<open>\<le>\<close> on \<open>string\<close> is exactly that
  order (a proper prefix is smaller), so the comparisons of the source are written with
  \<open>\<le>\<close> on \<open>string\<close>.
\<close>

text \<open>\<open>str(n)\<close> for a non-negative integer: its decimal digits.\<close>

fun str_of_nat :: "nat \<Rightarrow> string" where
  "str_of_nat n =
     (if n < 10 then [char_of (48 + n)]
      else str_of_nat (n div 10) @ [char_of (48 + n mod 10)])"

declare str_of_nat.simps [simp del]

text \<open>A dotted version string \<open><major>.<minor>\<close>, as the fixers declare them.\<close>

definition dotted :: "nat \<Rightarrow> nat \<Rightarrow> string" where
  "dotted major minor = str_of_nat major @ ''.'' @ str_of_nat minor"

text \<open>
  \<open>class VersionInfo\<close>: four version strings, \<open>works_until\<close> optional;
  \<open>__init__\<close> fills \<open>works_since\<close> from \<open>apply_since\<close> when it is not given.
\<close>

record VersionInfo =
  apply_since :: string
  apply_until :: string
  works_since :: string
  works_until :: "string option"

definition VersionInfo_init ::
  "string \<Rightarrow> string \<Rightarrow> string option \<Rightarrow> string option \<Rightarrow> VersionInfo" where
  "VersionInfo_init since until w_since w_until =
     \<lparr> apply_since = since, apply_until = until,
       works_since = (case w_since of None \<Rightarrow> since | Some w \<Rightarrow> w),
       works_until = w_until \<rparr>"

text \<open>
  \<open>class FixerBase\<close>: the class attribute \<open>version_info\<close> and the instance attribute
  \<open>required_imports\<close>, a set of \<open>ImportDecl\<close> pairs (module name, optional member name)
  that \<open>__init__\<close> creates empty.
\<close>

type_synonym ImportDecl = "string \<times> string option"

record FixerBase =
  version_info :: VersionInfo
  required_imports :: "ImportDecl set"

definition FixerBase_init :: "VersionInfo \<Rightarrow> FixerBase" where
  "FixerBase_init nfo = \<lparr> version_info = nfo, required_imports = {} \<rparr>"

definition is_required_for :: "FixerBase \<Rightarrow> string \<Rightarrow> bool" where
  "is_required_for self version =
     (let nfo = version_info self
      in apply_since nfo \<le> version \<and> version \<le> apply_until nfo)"

definition is_compatible_with :: "FixerBase \<Rightarrow> string \<Rightarrow> bool" where
  "is_compatible_with self version =
     (let nfo = version_info self
      in works_since nfo \<le> version \<and>
         (case works_until nfo of None \<Rightarrow> True | Some u \<Rightarrow> version \<le> u))"

text \<open>
  The order the specification asks for: dotted versions compared as pairs of numbers,
  first the major then the minor component.
\<close>

definition numeric_version_le :: "nat \<times> nat \<Rightarrow> nat \<times> nat \<Rightarrow> bool" where
  "numeric_version_le v w = (fst v < fst w \<or> (fst v = fst w \<and> snd v \<le> snd w))"

section \<open>Syntax trees\<close>

text \<open>
  A value found in a Python \<open>ast\<close> tree: a node (its class name and its fields, in the
  order of the class's \<open>_fields\<close>, as \<open>ast.iter_fields\<close> yields them), a list, or a
  primitive (\<open>str\<close>, a number, a boolean, \<open>None\<close>).
\<close>

datatype pyval =
    Node string "(string \<times> pyval) list"
  | PList "pyval list"
  | PStr string
  | PNum int
  | PBool bool
  | PNone

section \<open>Future-import fixers\<close>

text \<open>
  \<open>FutureImportFixerBase.__call__\<close>: adds the pair \<open>("__future__", future_name)\<close> to the
  instance's \<open>required_imports\<close> and returns the tree it was given. The result is the
  updated instance together with the returned tree; \<open>cfg\<close> is not read.
\<close>

definition FutureImportFixerBase_call ::
  "string \<Rightarrow> FixerBase \<Rightarrow> 'cfg \<Rightarrow> pyval \<Rightarrow> FixerBase \<times> pyval" where
  "FutureImportFixerBase_call future_name self cfg tree =
     (self\<lparr>required_imports := insert (''__future__'', Some future_name) (required_imports self)\<rparr>,
      tree)"

definition GeneratorStopFutureFixer :: FixerBase where
  "GeneratorStopFutureFixer = FixerBase_init (VersionInfo_init ''3.5'' ''3.6'' None None)"

definition UnicodeLiteralsFutureFixer :: FixerBase where
  "UnicodeLiteralsFutureFixer = FixerBase_init (VersionInfo_init ''2.6'' ''2.7'' None None)"

definition UnpackingGeneralizationsFixer :: FixerBase where
  "UnpackingGeneralizationsFixer = FixerBase_init (VersionInfo_init ''2.0'' ''3.4'' None None)"

section \<open>Field order\<close>

definition STMTLIST_FIELD_NAMES :: "string set" where
  "STMTLIST_FIELD_NAMES = {''body'', ''orelse'', ''finalbody''}"

text \<open>
  \<open>node_field_sort_key\<close>: the key of a (name, value) pair is the pair
  \<open>(field_name not in STMTLIST_FIELD_NAMES, field_name)\<close>; Python orders such tuples
  lexicographically, with \<open>False < True\<close>.
\<close>

definition node_field_sort_key :: "string \<times> 'a \<Rightarrow> bool \<times> string" where
  "node_field_sort_key elem = (fst elem \<notin> STMTLIST_FIELD_NAMES, fst elem)"

text \<open>\<open>sorted(fields, key=node_field_sort_key)\<close>: a stable sort by the key.\<close>

definition sorted_fields :: "(string \<times> 'a) list \<Rightarrow> (string \<times> 'a) list" where
  "sorted_fields fs = sort_key node_field_sort_key fs"

section \<open>The unpacking-generalizations fixer\<close>

datatype error =
    TypeError string
  | AttributeError
  | AssertionError
  | IndexError
  | ExpansionOverflow
  | KeywordOnlyNotImmutable string

fun getattr :: "pyval \<Rightarrow> string \<Rightarrow> error + pyval" where
  "getattr (Node k fs) name = (case map_of fs name of None \<Rightarrow> Inl AttributeError | Some v \<Rightarrow> Inr v)"
| "getattr v name = Inl AttributeError"

fun setattr :: "pyval \<Rightarrow> string \<Rightarrow> pyval \<Rightarrow> pyval" where
  "setattr (Node k fs) name v = Node k (map (\<lambda>(n, x). if n = name then (n, v) else (n, x)) fs)"
| "setattr x name v = x"

fun isinstance :: "pyval \<Rightarrow> string set \<Rightarrow> bool" where
  "isinstance (Node k fs) ks = (k \<in> ks)"
| "isinstance v ks = False"

fun iter_fields :: "pyval \<Rightarrow> error + (string \<times> pyval) list" where
  "iter_fields (Node k fs) = Inr fs"
| "iter_fields v = Inl AttributeError"

fun iterate :: "pyval \<Rightarrow> error + pyval list" where
  "iterate (PList xs) = Inr xs"
| "iterate (PStr s) = Inr (map (\<lambda>c. PStr [c]) s)"
| "iterate v = Inl (TypeError ''object is not iterable'')"

fun is_list_or_AST :: "pyval \<Rightarrow> bool" where
  "is_list_or_AST (Node k fs) = True"
| "is_list_or_AST (PList xs) = True"
| "is_list_or_AST v = False"

fun is_block_field :: "string \<Rightarrow> pyval \<Rightarrow> bool" where
  "is_block_field field_name (PList xs) = (field_name \<in> STMTLIST_FIELD_NAMES)"
| "is_block_field field_name v = False"

definition ast_ctx :: "string \<Rightarrow> pyval" where
  "ast_ctx c = Node c []"

definition ast_Name :: "string \<Rightarrow> string \<Rightarrow> pyval" where
  "ast_Name ident ctx = Node ''Name'' [(''id'', PStr ident), (''ctx'', ast_ctx ctx)]"

definition ast_Str :: "pyval \<Rightarrow> pyval" where
  "ast_Str s = Node ''Str'' [(''s'', s)]"

definition ast_List :: "pyval list \<Rightarrow> string \<Rightarrow> pyval" where
  "ast_List elts ctx = Node ''List'' [(''elts'', PList elts), (''ctx'', ast_ctx ctx)]"

definition ast_Dict :: "pyval list \<Rightarrow> pyval list \<Rightarrow> pyval" where
  "ast_Dict keys vals = Node ''Dict'' [(''keys'', PList keys), (''values'', PList vals)]"

definition ast_Starred :: "pyval \<Rightarrow> string \<Rightarrow> pyval" where
  "ast_Starred v ctx = Node ''Starred'' [(''value'', v), (''ctx'', ast_ctx ctx)]"

definition ast_Attribute :: "pyval \<Rightarrow> string \<Rightarrow> string \<Rightarrow> pyval" where
  "ast_Attribute v attr ctx =
     Node ''Attribute'' [(''value'', v), (''attr'', PStr attr), (''ctx'', ast_ctx ctx)]"

definition ast_Call :: "pyval \<Rightarrow> pyval \<Rightarrow> pyval \<Rightarrow> pyval" where
  "ast_Call func args keywords =
     Node ''Call'' [(''func'', func), (''args'', args), (''keywords'', keywords)]"

definition ast_keyword :: "pyval \<Rightarrow> pyval \<Rightarrow> pyval" where
  "ast_keyword arg v = Node ''keyword'' [(''arg'', arg), (''value'', v)]"

definition ast_Index :: "pyval \<Rightarrow> pyval" where
  "ast_Index v = Node ''Index'' [(''value'', v)]"

definition ast_Subscript :: "pyval \<Rightarrow> pyval \<Rightarrow> string \<Rightarrow> pyval" where
  "ast_Subscript v slice ctx =
     Node ''Subscript'' [(''value'', v), (''slice'', slice), (''ctx'', ast_ctx ctx)]"

definition ast_Assign :: "pyval list \<Rightarrow> pyval \<Rightarrow> pyval" where
  "ast_Assign targets v = Node ''Assign'' [(''targets'', PList targets), (''value'', v)]"

definition ast_Expr :: "pyval \<Rightarrow> pyval" where
  "ast_Expr v = Node ''Expr'' [(''value'', v)]"

definition ast_Delete :: "pyval list \<Rightarrow> pyval" where
  "ast_Delete targets = Node ''Delete'' [(''targets'', PList targets)]"

definition ast_Return :: "pyval \<Rightarrow> pyval" where
  "ast_Return v = Node ''Return'' [(''value'', v)]"

definition ast_FunctionDef :: "string \<Rightarrow> pyval \<Rightarrow> pyval list \<Rightarrow> pyval list \<Rightarrow> pyval" where
  "ast_FunctionDef name args body decorator_list =
     Node ''FunctionDef'' [(''name'', PStr name), (''args'', args), (''body'', PList body),
       (''decorator_list'', PList decorator_list)]"

definition make_temp_lambda_as_def :: "pyval \<Rightarrow> pyval list \<Rightarrow> string \<Rightarrow> error + pyval" where
  "make_temp_lambda_as_def lambda_node body name =
     (case getattr lambda_node ''body'' of
        Inl e \<Rightarrow> Inl e
      | Inr lambda_body \<Rightarrow>
          (case getattr lambda_node ''args'' of
             Inl e \<Rightarrow> Inl e
           | Inr lambda_args \<Rightarrow>
               Inr (ast_FunctionDef name lambda_args (body @ [ast_Return lambda_body]) [])))"

definition ArgUnpackNodes :: "string set" where
  "ArgUnpackNodes = {''Call'', ''List'', ''Tuple'', ''Set''}"

definition KwArgUnpackNodes :: "string set" where
  "KwArgUnpackNodes = {''Call'', ''Dict''}"

fun starred_after :: "bool \<Rightarrow> pyval list \<Rightarrow> bool" where
  "starred_after has_starred_arg [] = False"
| "starred_after has_starred_arg (arg # elts) =
     (if has_starred_arg then True else starred_after (isinstance arg {''Starred''}) elts)"

definition unpack_elts :: "pyval \<Rightarrow> error + pyval" where
  "unpack_elts val_node =
     (if isinstance val_node {''Call''} then getattr val_node ''args''
      else if isinstance val_node {''List'', ''Tuple'', ''Set''} then getattr val_node ''elts''
      else Inl (TypeError ''Unexpected val_node''))"

definition has_args_unpacking :: "pyval \<Rightarrow> error + bool" where
  "has_args_unpacking val_node =
     (case unpack_elts val_node of
        Inl e \<Rightarrow> Inl e
      | Inr elts \<Rightarrow>
          (case iterate elts of
             Inl e \<Rightarrow> Inl e
           | Inr xs \<Rightarrow> Inr (starred_after False xs)))"

fun kwstarred_after_kw :: "bool \<Rightarrow> pyval list \<Rightarrow> error + bool" where
  "kwstarred_after_kw has_kwstarred_arg [] = Inr False"
| "kwstarred_after_kw has_kwstarred_arg (kw # kws) =
     (if has_kwstarred_arg then Inr True
      else (case getattr kw ''arg'' of
              Inl e \<Rightarrow> Inl e
            | Inr a \<Rightarrow> kwstarred_after_kw (a = PNone) kws))"

fun kwstarred_after_key :: "bool \<Rightarrow> pyval list \<Rightarrow> bool" where
  "kwstarred_after_key has_kwstarred_arg [] = False"
| "kwstarred_after_key has_kwstarred_arg (key # keys) =
     (if has_kwstarred_arg then True else kwstarred_after_key (key = PNone) keys)"

definition has_kwargs_unpacking :: "pyval \<Rightarrow> error + bool" where
  "has_kwargs_unpacking val_node =
     (if isinstance val_node {''Call''} then
        (case getattr val_node ''keywords'' of
           Inl e \<Rightarrow> Inl e
         | Inr keywords \<Rightarrow>
             (case iterate keywords of
                Inl e \<Rightarrow> Inl e
              | Inr kws \<Rightarrow> kwstarred_after_kw False kws))
      else if isinstance val_node {''Dict''} then
        (case getattr val_node ''keys'' of
           Inl e \<Rightarrow> Inl e
         | Inr keys \<Rightarrow>
             (case iterate keys of
                Inl e \<Rightarrow> Inl e
              | Inr ks \<Rightarrow> Inr (kwstarred_after_key False ks)))
      else Inl (TypeError ''Unexpected val_node''))"

definition upg_call_stmt :: "string \<Rightarrow> string \<Rightarrow> pyval \<Rightarrow> pyval" where
  "upg_call_stmt upg_name func_name arg =
     ast_Expr (ast_Call (ast_Attribute (ast_Name upg_name ''Load'') func_name ''Load'')
                 (PList [arg]) (PList []))"

definition arg_stmt :: "string \<Rightarrow> pyval \<Rightarrow> error + pyval" where
  "arg_stmt upg_args_name arg =
     (if isinstance arg {''Starred''} then
        (case getattr arg ''value'' of
           Inl e \<Rightarrow> Inl e
         | Inr v \<Rightarrow> Inr (upg_call_stmt upg_args_name ''extend'' v))
      else Inr (upg_call_stmt upg_args_name ''append'' arg))"

fun arg_stmts :: "string \<Rightarrow> pyval list \<Rightarrow> error + pyval list" where
  "arg_stmts upg_args_name [] = Inr []"
| "arg_stmts upg_args_name (arg # elts) =
     (case arg_stmt upg_args_name arg of
        Inl e \<Rightarrow> Inl e
      | Inr st \<Rightarrow>
          (case arg_stmts upg_args_name elts of
             Inl e \<Rightarrow> Inl e
           | Inr sts \<Rightarrow> Inr (st # sts)))"

definition literal_func_id :: "pyval \<Rightarrow> string" where
  "literal_func_id val_node =
     (if isinstance val_node {''List''} then ''list''
      else if isinstance val_node {''Tuple''} then ''tuple''
      else ''set'')"

definition unpack_parts :: "pyval \<Rightarrow> error + (pyval \<times> pyval \<times> pyval)" where
  "unpack_parts val_node =
     (if isinstance val_node {''Call''} then
        (case getattr val_node ''func'' of
           Inl e \<Rightarrow> Inl e
         | Inr new_val_func \<Rightarrow>
             (case getattr val_node ''keywords'' of
                Inl e \<Rightarrow> Inl e
              | Inr new_val_keywords \<Rightarrow>
                  (case getattr val_node ''args'' of
                     Inl e \<Rightarrow> Inl e
                   | Inr elts \<Rightarrow> Inr (new_val_func, new_val_keywords, elts))))
      else if isinstance val_node {''List'', ''Tuple'', ''Set''} then
        (case getattr val_node ''elts'' of
           Inl e \<Rightarrow> Inl e
         | Inr elts \<Rightarrow> Inr (ast_Name (literal_func_id val_node) ''Load'', PList [], elts))
      else Inl (TypeError ''Unexpected val_node''))"

definition expand_args_unpacking ::
  "nat \<Rightarrow> pyval \<Rightarrow> error + (nat \<times> pyval list \<times> pyval \<times> pyval list)" where
  "expand_args_unpacking tmp_var_index val_node =
     (let upg_args_name = ''upg_args_'' @ str_of_nat tmp_var_index in
      case unpack_parts val_node of
        Inl e \<Rightarrow> Inl e
      | Inr (new_val_func, new_val_keywords, elts) \<Rightarrow>
          (case iterate elts of
             Inl e \<Rightarrow> Inl e
           | Inr args \<Rightarrow>
               (case arg_stmts upg_args_name args of
                  Inl e \<Rightarrow> Inl e
                | Inr sts \<Rightarrow>
                    Inr (tmp_var_index + 1,
                         ast_Assign [ast_Name upg_args_name ''Store''] (ast_List [] ''Load'') # sts,
                         ast_Call new_val_func
                           (PList [ast_Starred (ast_Name upg_args_name ''Load'') ''Load''])
                           new_val_keywords,
                         [ast_Delete [ast_Name upg_args_name ''Del'']]))))"

definition kw_item_stmt :: "string \<Rightarrow> pyval \<Rightarrow> pyval \<Rightarrow> error + pyval" where
  "kw_item_stmt upg_kwargs_name key val =
     (if key = PNone then Inr (upg_call_stmt upg_kwargs_name ''update'' val)
      else
        (case (if isinstance key {''Str''} then Inr key
               else (case key of
                       PStr s \<Rightarrow> Inr (ast_Str key)
                     | _ \<Rightarrow> Inl (TypeError ''Invalid dict key''))) of
           Inl e \<Rightarrow> Inl e
         | Inr key_val \<Rightarrow>
             Inr (ast_Assign
                    [ast_Subscript (ast_Name upg_kwargs_name ''Load'') (ast_Index key_val) ''Store'']
                    val)))"

fun add_items :: "string \<Rightarrow> (pyval \<times> pyval) list \<Rightarrow> error + pyval list" where
  "add_items upg_kwargs_name [] = Inr []"
| "add_items upg_kwargs_name ((key, val) # items) =
     (case kw_item_stmt upg_kwargs_name key val of
        Inl e \<Rightarrow> Inl e
      | Inr st \<Rightarrow>
          (case add_items upg_kwargs_name items of
             Inl e \<Rightarrow> Inl e
           | Inr sts \<Rightarrow> Inr (st # sts)))"

fun add_keyword_items :: "string \<Rightarrow> pyval list \<Rightarrow> error + pyval list" where
  "add_keyword_items upg_kwargs_name [] = Inr []"
| "add_keyword_items upg_kwargs_name (kw # kws) =
     (case getattr kw ''arg'' of
        Inl e \<Rightarrow> Inl e
      | Inr key \<Rightarrow>
          (case getattr kw ''value'' of
             Inl e \<Rightarrow> Inl e
           | Inr val \<Rightarrow>
               (case kw_item_stmt upg_kwargs_name key val of
                  Inl e \<Rightarrow> Inl e
                | Inr st \<Rightarrow>
                    (case add_keyword_items upg_kwargs_name kws of
                       Inl e \<Rightarrow> Inl e
                     | Inr sts \<Rightarrow> Inr (st # sts)))))"

definition kwargs_result ::
  "nat \<Rightarrow> pyval list \<Rightarrow> pyval \<Rightarrow> pyval \<Rightarrow> nat \<times> pyval list \<times> pyval \<times> pyval list" where
  "kwargs_result tmp_var_index sts replacement_func args =
     (let upg_kwargs_name = ''upg_kwargs_'' @ str_of_nat tmp_var_index in
      (tmp_var_index + 1,
       ast_Assign [ast_Name upg_kwargs_name ''Store''] (ast_Dict [] []) # sts,
       ast_Call replacement_func args
         (PList [ast_keyword PNone (ast_Name upg_kwargs_name ''Load'')]),
       [ast_Delete [ast_Name upg_kwargs_name ''Del'']]))"

definition expand_kwargs_unpacking ::
  "nat \<Rightarrow> pyval \<Rightarrow> error + (nat \<times> pyval list \<times> pyval \<times> pyval list)" where
  "expand_kwargs_unpacking tmp_var_index val_node =
     (let upg_kwargs_name = ''upg_kwargs_'' @ str_of_nat tmp_var_index in
      if isinstance val_node {''Call''} then
        (case getattr val_node ''keywords'' of
           Inl e \<Rightarrow> Inl e
         | Inr keywords \<Rightarrow>
             (case iterate keywords of
                Inl e \<Rightarrow> Inl e
              | Inr kws \<Rightarrow>
                  (case add_keyword_items upg_kwargs_name kws of
                     Inl e \<Rightarrow> Inl e
                   | Inr sts \<Rightarrow>
                       (case getattr val_node ''args'' of
                          Inl e \<Rightarrow> Inl e
                        | Inr args \<Rightarrow>
                            (case getattr val_node ''func'' of
                               Inl e \<Rightarrow> Inl e
                             | Inr replacement_func \<Rightarrow>
                                 Inr (kwargs_result tmp_var_index sts replacement_func args))))))
      else if isinstance val_node {''Dict''} then
        (case getattr val_node ''keys'' of
           Inl e \<Rightarrow> Inl e
         | Inr keys \<Rightarrow>
             (case getattr val_node ''values'' of
                Inl e \<Rightarrow> Inl e
              | Inr vals \<Rightarrow>
                  (case iterate keys of
                     Inl e \<Rightarrow> Inl e
                   | Inr ks \<Rightarrow>
                       (case iterate vals of
                          Inl e \<Rightarrow> Inl e
                        | Inr vs \<Rightarrow>
                            (case add_items upg_kwargs_name (zip ks vs) of
                               Inl e \<Rightarrow> Inl e
                             | Inr sts \<Rightarrow>
                                 Inr (kwargs_result tmp_var_index sts
                                        (ast_Name ''dict'' ''Load'') (PList [])))))))
      else Inl (TypeError ''Unexpected val_node''))"

definition val_node_step ::
  "string set \<Rightarrow> (pyval \<Rightarrow> error + bool) \<Rightarrow>
   (nat \<Rightarrow> pyval \<Rightarrow> error + (nat \<times> pyval list \<times> pyval \<times> pyval list)) \<Rightarrow>
   nat \<times> pyval list \<times> pyval \<times> pyval list \<Rightarrow>
   error + (nat \<times> pyval list \<times> pyval \<times> pyval list)" where
  "val_node_step classes has_unpacking expand acc =
     (case acc of (s, all_prefix_nodes, val_node, all_del_nodes) \<Rightarrow>
        if \<not> isinstance val_node classes then Inr acc
        else
          (case has_unpacking val_node of
             Inl e \<Rightarrow> Inl e
           | Inr False \<Rightarrow> Inr acc
           | Inr True \<Rightarrow>
               (case expand s val_node of
                  Inl e \<Rightarrow> Inl e
                | Inr (s1, prefix_nodes, new_val_node, del_nodes) \<Rightarrow>
                    (case has_unpacking new_val_node of
                       Inl e \<Rightarrow> Inl e
                     | Inr True \<Rightarrow> Inl AssertionError
                     | Inr False \<Rightarrow>
                         Inr (s1, all_prefix_nodes @ prefix_nodes, new_val_node,
                              all_del_nodes @ del_nodes)))))"

definition make_val_node_update ::
  "nat \<Rightarrow> pyval \<Rightarrow> error + (nat \<times> (pyval list \<times> pyval \<times> pyval list) option)" where
  "make_val_node_update s val_node =
     (case val_node_step ArgUnpackNodes has_args_unpacking expand_args_unpacking
             (s, [], val_node, []) of
        Inl e \<Rightarrow> Inl e
      | Inr acc1 \<Rightarrow>
          (case val_node_step KwArgUnpackNodes has_kwargs_unpacking expand_kwargs_unpacking acc1 of
             Inl e \<Rightarrow> Inl e
           | Inr (s2, all_prefix_nodes, new_val_node, all_del_nodes) \<Rightarrow>
               if all_prefix_nodes \<noteq> [] then
                 (if all_del_nodes = [] then Inl AssertionError
                  else Inr (s2, Some (all_prefix_nodes, new_val_node, all_del_nodes)))
               else Inr (s2, None)))"

lemma size_list_sort_key [termination_simp]:
  "size_list f (sort_key k xs) = size_list f xs"
proof -
  have "\<And>ys. size_list f ys = sum_mset (image_mset f (mset ys)) + length ys"
    by (induct_tac ys) auto
  then show ?thesis by simp
qed

lemma size_list_sorted_fields [termination_simp]:
  "size_list f (sorted_fields fs) = size_list f fs"
  by (simp add: sorted_fields_def size_list_sort_key)

definition lambda_name :: string where
  "lambda_name = ''temp_lambda_as_def''"

definition share_args :: "bool \<Rightarrow> string \<Rightarrow> pyval \<Rightarrow> pyval list \<Rightarrow> pyval list" where
  "share_args converted sub_field_name new_sub all_prefix_nodes =
     (if converted \<and> sub_field_name = ''args'' then
        (case all_prefix_nodes of
           [] \<Rightarrow> []
         | temp_func_def # rest \<Rightarrow> setattr temp_func_def ''args'' new_sub # rest)
      else all_prefix_nodes)"

fun make_single_field_update ::
    "nat \<Rightarrow> pyval \<Rightarrow> error + (nat \<times> (pyval list \<times> pyval \<times> pyval list) option)"
  and sub_fields_update ::
    "nat \<Rightarrow> bool \<Rightarrow> pyval \<Rightarrow> pyval list \<Rightarrow> pyval list \<Rightarrow> (string \<times> pyval) list \<Rightarrow>
     error + (nat \<times> pyval \<times> pyval list \<times> pyval list)"
  and make_list_field_update ::
    "nat \<Rightarrow> pyval list \<Rightarrow> error + (nat \<times> (pyval list \<times> pyval \<times> pyval list) option)"
  and list_field_loop ::
    "nat \<Rightarrow> pyval list \<Rightarrow> error + (nat \<times> pyval list \<times> pyval list \<times> pyval list)"
where
  "make_single_field_update s (Node k fs) =
     (case (if k \<in> ArgUnpackNodes \<union> KwArgUnpackNodes then make_val_node_update s (Node k fs)
            else Inr (s, None)) of
        Inl e \<Rightarrow> Inl e
      | Inr (s1, Some val_node_update) \<Rightarrow> Inr (s1, Some val_node_update)
      | Inr (s1, None) \<Rightarrow>
          (case sub_fields_update s1 False (Node k fs) [] [] (sorted_fields fs) of
             Inl e \<Rightarrow> Inl e
           | Inr (s2, field_node, all_prefix_nodes, all_del_nodes) \<Rightarrow>
               if all_prefix_nodes \<noteq> [] then
                 (if all_del_nodes = [] then Inl AssertionError
                  else Inr (s2, Some (all_prefix_nodes, field_node, all_del_nodes)))
               else Inr (s2, None)))"
| "make_single_field_update s (PList xs) = Inl AttributeError"
| "make_single_field_update s (PStr x) = Inl AttributeError"
| "make_single_field_update s (PNum x) = Inl AttributeError"
| "make_single_field_update s (PBool x) = Inl AttributeError"
| "make_single_field_update s PNone = Inl AttributeError"
| "sub_fields_update s converted field_node all_prefix_nodes all_del_nodes [] =
     Inr (s, field_node, all_prefix_nodes, all_del_nodes)"
| "sub_fields_update s converted field_node all_prefix_nodes all_del_nodes
       ((sub_field_name, sub_field) # rest) =
     (if is_block_field sub_field_name sub_field then Inl AssertionError
      else if \<not> is_list_or_AST sub_field then
        sub_fields_update s converted field_node all_prefix_nodes all_del_nodes rest
      else
        (case (case sub_field of
                 PList xs \<Rightarrow> make_list_field_update s xs
               | _ \<Rightarrow> make_single_field_update s sub_field) of
           Inl e \<Rightarrow> Inl e
         | Inr (s1, None) \<Rightarrow>
             sub_fields_update s1 converted field_node all_prefix_nodes all_del_nodes rest
         | Inr (s1, Some (prefix_nodes, new_field, del_nodes)) \<Rightarrow>
             (let field_node1 = setattr field_node sub_field_name new_field in
              if isinstance field_node1 {''Lambda''} then
                (case make_temp_lambda_as_def field_node1 prefix_nodes lambda_name of
                   Inl e \<Rightarrow> Inl e
                 | Inr temp_func_def \<Rightarrow>
                     sub_fields_update s1 True (ast_Name lambda_name ''Load'')
                       (all_prefix_nodes @ [temp_func_def])
                       (all_del_nodes @ [ast_Delete [ast_Name lambda_name ''Del'']]) rest)
              else
                sub_fields_update s1 converted field_node1
                  (share_args converted sub_field_name new_field all_prefix_nodes @ prefix_nodes)
                  (all_del_nodes @ del_nodes) rest)))"
| "make_list_field_update s field_nodes =
     (if field_nodes = [] then Inr (s, None)
      else
        (case list_field_loop s field_nodes of
           Inl e \<Rightarrow> Inl e
         | Inr (s1, all_prefix_nodes, new_field_nodes, all_del_nodes) \<Rightarrow>
             if all_prefix_nodes \<noteq> [] then
               (if all_del_nodes = [] \<or> new_field_nodes = []
                   \<or> length new_field_nodes \<noteq> length field_nodes
                then Inl AssertionError
                else Inr (s1, Some (all_prefix_nodes, PList new_field_nodes, all_del_nodes)))
             else Inr (s1, None)))"
| "list_field_loop s [] = Inr (s, [], [], [])"
| "list_field_loop s (field_node # field_nodes) =
     (case make_single_field_update s field_node of
        Inl e \<Rightarrow> Inl e
      | Inr (s1, body_update) \<Rightarrow>
          (case list_field_loop s1 field_nodes of
             Inl e \<Rightarrow> Inl e
           | Inr (s2, all_prefix_nodes, new_field_nodes, all_del_nodes) \<Rightarrow>
               (case body_update of
                  None \<Rightarrow> Inr (s2, all_prefix_nodes, field_node # new_field_nodes, all_del_nodes)
                | Some (prefix_nodes, new_field, del_nodes) \<Rightarrow>
                    Inr (s2, prefix_nodes @ all_prefix_nodes, new_field # new_field_nodes,
                         del_nodes @ all_del_nodes))))"

definition make_field_update ::
  "nat \<Rightarrow> pyval \<Rightarrow> string \<Rightarrow> pyval \<Rightarrow>
   error + (nat \<times> pyval \<times> (pyval list \<times> pyval list) option)" where
  "make_field_update s parent_node field_name field =
     (case (case field of
              PList xs \<Rightarrow> make_list_field_update s xs
            | _ \<Rightarrow> make_single_field_update s field) of
        Inl e \<Rightarrow> Inl e
      | Inr (s1, None) \<Rightarrow> Inr (s1, parent_node, None)
      | Inr (s1, Some (prefix_nodes, new_field, del_nodes)) \<Rightarrow>
          Inr (s1, setattr parent_node field_name new_field, Some (prefix_nodes, del_nodes)))"

definition insert_at :: "nat \<Rightarrow> 'a list \<Rightarrow> 'a list \<Rightarrow> 'a list" where
  "insert_at k xs body = take k body @ xs @ drop k body"

definition shift :: "nat \<Rightarrow> nat \<Rightarrow> nat list \<Rightarrow> nat list" where
  "shift k n pos = map (\<lambda>q. if k \<le> q then q + n else q) pos"

definition store_node :: "nat list \<Rightarrow> pyval \<Rightarrow> pyval list \<Rightarrow> pyval list" where
  "store_node pos node body = (case pos of [] \<Rightarrow> body | p # ps \<Rightarrow> body[p := node])"

definition splice_update ::
  "pyval list \<Rightarrow> nat \<Rightarrow> nat \<Rightarrow> nat list \<Rightarrow> pyval list \<Rightarrow> pyval list \<Rightarrow>
   error + (pyval list \<times> nat \<times> nat list)" where
  "splice_update body i off pos prefix_nodes del_nodes =
     (let body1 = insert_at (i + off) prefix_nodes body;
          pos1 = shift (i + off) (length prefix_nodes) pos;
          off1 = off + length prefix_nodes
      in if length body1 \<le> i + off1 then Inl IndexError
         else if isinstance (body1 ! (i + off1)) {''Return''} then Inr (body1, off1, pos1)
         else Inr (insert_at (i + off1 + 1) del_nodes body1, off1 + 1,
                   shift (i + off1 + 1) (length del_nodes) pos1))"

type_synonym body_result = "(error + nat \<times> pyval list) option"

fun node_fields_update ::
  "(nat \<Rightarrow> pyval list \<Rightarrow> body_result) \<Rightarrow> nat \<Rightarrow> pyval list \<Rightarrow> nat \<Rightarrow> nat \<Rightarrow> nat list \<Rightarrow>
   pyval \<Rightarrow> (string \<times> pyval) list \<Rightarrow> (error + nat \<times> pyval list \<times> nat \<times> nat list) option" where
  "node_fields_update rec s body i off pos node [] = Some (Inr (s, body, off, pos))"
| "node_fields_update rec s body i off pos node ((field_name, field) # rest) =
     (if \<not> is_list_or_AST field then node_fields_update rec s body i off pos node rest
      else if is_block_field field_name field then
        (case field of
           PList node_body \<Rightarrow>
             (case rec s node_body of
                None \<Rightarrow> None
              | Some (Inl e) \<Rightarrow> Some (Inl e)
              | Some (Inr (s1, node_body1)) \<Rightarrow>
                  (let node1 = setattr node field_name (PList node_body1) in
                   node_fields_update rec s1 (store_node pos node1 body) i off pos node1 rest))
         | _ \<Rightarrow> node_fields_update rec s body i off pos node rest)
      else
        (case make_field_update s node field_name field of
           Inl e \<Rightarrow> Some (Inl e)
         | Inr (s1, node1, None) \<Rightarrow> node_fields_update rec s1 body i off pos node1 rest
         | Inr (s1, node1, Some (prefix_nodes, del_nodes)) \<Rightarrow>
             (case splice_update (store_node pos node1 body) i off pos prefix_nodes del_nodes of
                Inl e \<Rightarrow> Some (Inl e)
              | Inr (body1, off1, pos1) \<Rightarrow>
                  node_fields_update rec s1 body1 i off1 pos1 node1 rest)))"

fun body_nodes_update ::
  "(nat \<Rightarrow> pyval list \<Rightarrow> body_result) \<Rightarrow> nat \<Rightarrow> pyval list \<Rightarrow> nat \<Rightarrow> nat \<Rightarrow> nat list \<Rightarrow>
   pyval list \<Rightarrow> body_result" where
  "body_nodes_update rec s body i off pos [] = Some (Inr (s, body))"
| "body_nodes_update rec s body i off pos (node # body_copy) =
     (case iter_fields node of
        Inl e \<Rightarrow> Some (Inl e)
      | Inr fs \<Rightarrow>
          (case node_fields_update rec s body i off pos node (sorted_fields fs) of
             None \<Rightarrow> None
           | Some (Inl e) \<Rightarrow> Some (Inl e)
           | Some (Inr (s1, body1, off1, pos1)) \<Rightarrow>
               body_nodes_update rec s1 body1 (Suc i) off1 (tl pos1) body_copy))"

definition body_pass ::
  "(nat \<Rightarrow> pyval list \<Rightarrow> body_result) \<Rightarrow> nat \<Rightarrow> pyval list \<Rightarrow> body_result" where
  "body_pass rec s body = body_nodes_update rec s body 0 0 [0..<length body] body"

fun apply_body_updates :: "nat \<Rightarrow> nat \<Rightarrow> pyval list \<Rightarrow> body_result"
  and body_loop :: "nat \<Rightarrow> nat \<Rightarrow> int \<Rightarrow> nat \<Rightarrow> pyval list \<Rightarrow> body_result"
where
  "apply_body_updates fuel s body = body_loop fuel (length body) (- 1) s body"
| "body_loop 0 initial_len_body prev_len_body s body =
     (if prev_len_body = int (length body) then Some (Inr (s, body))
      else if length body > initial_len_body * 100 then Some (Inl ExpansionOverflow)
      else None)"
| "body_loop (Suc fuel) initial_len_body prev_len_body s body =
     (if prev_len_body = int (length body) then Some (Inr (s, body))
      else if length body > initial_len_body * 100 then Some (Inl ExpansionOverflow)
      else
        (case body_pass (apply_body_updates fuel) s body of
           None \<Rightarrow> None
         | Some (Inl e) \<Rightarrow> Some (Inl e)
         | Some (Inr (s1, body1)) \<Rightarrow>
             body_loop fuel initial_len_body (int (length body)) s1 body1))"


section \<open>The keyword-only-arguments fixer\<close>

record ast_arg =
  arg :: string
  annotation :: "pyval option"

record arguments =
  args :: "ast_arg list"
  vararg :: "ast_arg option"
  kwonlyargs :: "ast_arg list"
  kw_defaults :: "pyval option list"
  kwarg :: "ast_arg option"
  defaults :: "pyval list"

record FunctionDef =
  name :: string
  args :: arguments
  body :: "pyval list"
  decorator_list :: "pyval list"
  returns :: "pyval option"




section \<open>Notions used to state the properties\<close>

text \<open>
  Two orders on (name, value) pairs. In the first the statement-list fields come before
  the other fields; in the second they come after them. Within each group the names are
  in alphabetical order.
\<close>

definition stmtlist_fields_first :: "string \<times> 'a \<Rightarrow> string \<times> 'a \<Rightarrow> bool" where
  "stmtlist_fields_first x y =
     ((fst x \<in> STMTLIST_FIELD_NAMES \<and> fst y \<notin> STMTLIST_FIELD_NAMES) \<or>
      ((fst x \<in> STMTLIST_FIELD_NAMES) = (fst y \<in> STMTLIST_FIELD_NAMES) \<and> fst x \<le> fst y))"

definition stmtlist_fields_last :: "string \<times> 'a \<Rightarrow> string \<times> 'a \<Rightarrow> bool" where
  "stmtlist_fields_last x y =
     ((fst x \<notin> STMTLIST_FIELD_NAMES \<and> fst y \<in> STMTLIST_FIELD_NAMES) \<or>
      ((fst x \<in> STMTLIST_FIELD_NAMES) = (fst y \<in> STMTLIST_FIELD_NAMES) \<and> fst x \<le> fst y))"




subsection \<open>Example trees\<close>

definition ast_Num :: "int \<Rightarrow> pyval" where
  "ast_Num n = Node ''Num'' [(''n'', PNum n)]"

definition name_load :: "string \<Rightarrow> pyval" where
  "name_load x = ast_Name x ''Load''"


definition ast_Module :: "pyval list \<Rightarrow> pyval" where
  "ast_Module stmts = Node ''Module'' [(''body'', PList stmts)]"








text \<open>\<^verbatim>\<open>x = {**a, 1: 2}\<close>: a spread mapping literal with a key that is not a string.\<close>

definition dict_int_key :: pyval where
  "dict_int_key = ast_Module [ast_Assign [ast_Name ''x'' ''Store'']
      (ast_Dict [PNone, ast_Num 1] [name_load ''a'', ast_Num 2])]"


section \<open>Version selection\<close>

lemma str_of_digit: "n < 10 \<Longrightarrow> str_of_nat n = [char_of (48 + n)]"
  by (simp add: str_of_nat.simps)

lemma digit_char_le:
  "a < 10 \<Longrightarrow> b < 10 \<Longrightarrow> (char_of (48 + a) \<le> (char_of (48 + b) :: char)) = (a \<le> (b::nat))"
  by (simp add: less_eq_char_def)

lemma digit_char_less:
  "a < 10 \<Longrightarrow> b < 10 \<Longrightarrow> (char_of (48 + a) < (char_of (48 + b) :: char)) = (a < (b::nat))"
  by (simp add: less_char_def)

lemma digit_char_eq:
  "a < 10 \<Longrightarrow> b < 10 \<Longrightarrow> (char_of (48 + a) = (char_of (48 + b) :: char)) = (a = (b::nat))"
  by auto

lemma dotted_digit_le:
  assumes "a < 10" "b < 10" "c < 10" "d < 10"
  shows "(dotted a b \<le> dotted c d) = numeric_version_le (a, b) (c, d)"
  using assms
  by (auto simp add: dotted_def str_of_digit numeric_version_le_def digit_char_less digit_char_eq
      digit_char_le)

text \<open>
  C4, as the code has it. \<open>is_required_for\<close> compares the version strings character by
  character. For versions whose major and minor components are single digits this is
  the numeric order of the pairs, so the fixer is selected exactly when
  \<open>apply_since \<le> v \<le> apply_until\<close> numerically.
\<close>

theorem is_required_for_single_digit:
  assumes "a < 10" "b < 10" "c < 10" "d < 10" "e < 10" "f < 10"
  shows "is_required_for (FixerBase_init (VersionInfo_init (dotted a b) (dotted c d) ws wu)) (dotted e f)
     = (numeric_version_le (a, b) (e, f) \<and> numeric_version_le (e, f) (c, d))"
  using assms by (simp add: is_required_for_def FixerBase_init_def VersionInfo_init_def dotted_digit_le)

theorem is_required_for_single_digit_witness:
  "is_required_for (FixerBase_init (VersionInfo_init (dotted 2 0) (dotted 3 4) None None)) (dotted 3 3)
   \<and> \<not> is_required_for (FixerBase_init (VersionInfo_init (dotted 2 0) (dotted 3 4) None None)) (dotted 3 5)"
  using is_required_for_single_digit [of 2 0 3 4 3 3 None None]
        is_required_for_single_digit [of 2 0 3 4 3 5 None None]
  by (simp add: numeric_version_le_def)

text \<open>
  C4 as stated fails for a two-digit minor component: the fixer with the window 2.0 to 3.4
  is selected for the version 3.10, which is numerically above 3.4, because the string
  \<open>3.10\<close> is below the string \<open>3.4\<close>.
\<close>

theorem is_required_for_two_digit_minor:
  "is_required_for UnpackingGeneralizationsFixer (dotted 3 10) \<and>
   \<not> (numeric_version_le (2, 0) (3, 10) \<and> numeric_version_le (3, 10) (3, 4)) \<and>
   version_info UnpackingGeneralizationsFixer = VersionInfo_init (dotted 2 0) (dotted 3 4) None None"
  by (simp add: numeric_version_le_def) code_simp

section \<open>Future imports\<close>

text \<open>
  C10. A future-import fixer returns the tree it was given, leaves its version window
  alone, adds exactly the pair \<open>("__future__", future_name)\<close> to its required imports,
  and a second call changes nothing more: the set holds the pair once.
\<close>

theorem future_import_frame:
  "snd (FutureImportFixerBase_call future_name self cfg tree) = tree \<and>
   version_info (fst (FutureImportFixerBase_call future_name self cfg tree)) = version_info self \<and>
   required_imports (fst (FutureImportFixerBase_call future_name self cfg tree)) =
     required_imports self \<union> {(''__future__'', Some future_name)} \<and>
   FutureImportFixerBase_call future_name
     (fst (FutureImportFixerBase_call future_name self cfg tree)) cfg tree =
     FutureImportFixerBase_call future_name self cfg tree"
  by (simp add: FutureImportFixerBase_call_def)

section \<open>Order of the fields\<close>

lemma node_field_sort_key_le:
  "(node_field_sort_key x \<le> node_field_sort_key y) = stmtlist_fields_first x y"
  by (auto simp: node_field_sort_key_def less_eq_prod_def stmtlist_fields_first_def)

text \<open>
  C3, as the code has it. The sorted fields are a rearrangement of the node's fields in
  which the statement-list fields (\<open>body\<close>, \<open>finalbody\<close>, \<open>orelse\<close>) come first and the
  other fields after them, each group in alphabetical order of the names.
\<close>

theorem sorted_fields_order:
  "sorted_wrt stmtlist_fields_first (sorted_fields fs) \<and> mset (sorted_fields fs) = mset fs"
proof -
  have "sorted (map node_field_sort_key (sorted_fields fs))"
    by (simp add: sorted_fields_def)
  then have "sorted_wrt (\<lambda>x y. node_field_sort_key x \<le> node_field_sort_key y) (sorted_fields fs)"
    by (simp add: sorted_map)
  then have "sorted_wrt stmtlist_fields_first (sorted_fields fs)"
    by (simp add: node_field_sort_key_le)
  then show ?thesis by (simp add: sorted_fields_def)
qed

text \<open>
  C3 as stated fails on the fields of an \<open>if\<close> statement: \<open>test\<close> is not a statement-list
  field and is visited after \<open>body\<close> and \<open>orelse\<close>.
\<close>

theorem sorted_fields_not_stmtlist_last:
  "sorted_fields [(''test'', PNone), (''body'', PList []), (''orelse'', PList [])] =
     [(''body'', PList []), (''orelse'', PList []), (''test'', PNone)] \<and>
   \<not> sorted_wrt stmtlist_fields_last
       (sorted_fields [(''test'', PNone), (''body'', PList []), (''orelse'', PList [])])"
  by (simp add: sorted_fields_def node_field_sort_key_def STMTLIST_FIELD_NAMES_def stmtlist_fields_last_def)

section \<open>Expansion of positional unpacking\<close>




section \<open>Deletion of the temporaries\<close>




section \<open>Lambdas\<close>

lemma sorted_fields_single [simp]: "sorted_fields [x] = [x]"
  by (simp add: sorted_fields_def)








section \<open>Keyword-only arguments\<close>






end
